theory Spec2Isabelle
  imports Main "HOL-Library.Sublist"
begin

section \<open>The theme generator of packages/themes/tasks/build.js\<close>

text \<open>
  The task builds three style sheets as syntax trees of @carbon/scss-generator and writes
  them out. The trees are values of the datatype \<open>node\<close>, one constructor for each builder
  \<open>t.X\<close> the task calls. The token name formatter \<open>formatTokenName\<close>, the theme table
  \<open>themes\<close> and the canonical token list \<open>tokens.colors\<close> come from \<open>../lib\<close>, which is
  not part of the sources: every definition takes them as parameters.
\<close>

subsection \<open>Syntax trees\<close>

text \<open>
  \<open>Assignment id init default global\<close>: the two flags are the builder's \<open>default\<close> and
  \<open>global\<close> options, \<open>False\<close> where the call leaves the option out.
  \<open>SassMixin id params body\<close>, \<open>IfStatement test consequent\<close> and
  \<open>LogicalExpression left operator right\<close> keep the order of the builder's fields.
  A builder is taken to return the node of its arguments: whatever the generator package
  checks about them is not in the sources.
\<close>

datatype node =
    Comment string
  | Identifier string
  | SassString string
  | SassColor string
  | SassImport string
  | AtContent
  | Assignment node node bool bool
  | SassMap "node list"
  | SassMapProperty node node
  | CallExpression node "node list"
  | AssignmentPattern node node
  | SassMixin node "node list" node
  | SassMixinCall node
  | BlockStatement "node list"
  | IfStatement node node
  | LogicalExpression node string node
  | StyleSheet "node list"

definition nl :: string where
  "nl = [CHR 0x0A]"

text \<open>\<open>Array.prototype.join\<close> on an array of strings.\<close>

fun join :: "string \<Rightarrow> string list \<Rightarrow> string" where
  "join sep [] = []"
| "join sep [x] = x"
| "join sep (x # y # ys) = x @ sep @ join sep (y # ys)"

definition FILE_BANNER :: node where
  "FILE_BANNER = Comment
     ('' Code generated by @carbon/themes. DO NOT EDIT.'' @ nl @ nl @
      '' Copyright IBM Corp. 2018, 2018'' @ nl @ nl @
      '' This source code is licensed under the Apache-2.0 license found in the'' @ nl @
      '' LICENSE file in the root directory of this source tree.'' @ nl)"

definition defaultTheme :: string where
  "defaultTheme = ''white''"

definition defaultThemeMapName :: string where
  "defaultThemeMapName = ''carbon--theme''"

subsection \<open>Objects\<close>

text \<open>
  A JavaScript object with string keys is the list of its own enumerable properties in
  the order \<open>Object.keys\<close> gives them; an object has every key once, so the keys of such
  a list are distinct. \<open>get obj k\<close> is \<open>obj[k]\<close>, \<open>None\<close> for \<open>undefined\<close>.
\<close>

type_synonym 'v object = "(string \<times> 'v) list"

definition Object_keys :: "'v object \<Rightarrow> string list" where
  "Object_keys obj = map fst obj"

definition get :: "'v object \<Rightarrow> string \<Rightarrow> 'v option" where
  "get obj k = map_of obj k"

subsection \<open>Theme maps\<close>

text \<open>
  \<open>themeMaps\<close> is \<open>Object.keys(themes).flatMap(name => [comment, variable])\<close>. The reads
  \<open>themes[name]\<close> and \<open>theme[token]\<close> are reads at a key that \<open>Object.keys\<close> of the same
  object has just produced, so \<open>the\<close> is only ever applied to \<open>Some\<close>.
\<close>

definition themeComment :: "string \<Rightarrow> node" where
  "themeComment name = Comment
     (''/ Carbon's '' @ name @ '' color theme'' @ nl @
      ''/ @type Map'' @ nl @
      ''/ @access public'' @ nl @
      ''/ @group @carbon/themes'')"

definition themeVariable :: "(string \<Rightarrow> string) \<Rightarrow> string \<Rightarrow> string object \<Rightarrow> node" where
  "themeVariable formatTokenName name theme =
     Assignment (Identifier (''carbon--theme--'' @ name))
       (SassMap (map (\<lambda>token.
          SassMapProperty (Identifier (formatTokenName token))
            (SassColor (the (get theme token)))) (Object_keys theme)))
       True False"

definition themeMaps :: "(string \<Rightarrow> string) \<Rightarrow> string object object \<Rightarrow> node list" where
  "themeMaps formatTokenName themes =
     concat (map (\<lambda>name.
       [themeComment name, themeVariable formatTokenName name (the (get themes name))])
       (Object_keys themes))"

definition defaultThemeComment :: node where
  "defaultThemeComment = Comment
     (''/ Carbon's default theme'' @ nl @
      ''/ @type Map'' @ nl @
      ''/ @access public'' @ nl @
      ''/ @alias carbon--theme--'' @ defaultTheme @ nl @
      ''/ @group @carbon/themes'')"

definition defaultThemeAlias :: node where
  "defaultThemeAlias =
     Assignment (Identifier defaultThemeMapName)
       (Identifier (''carbon--theme--'' @ defaultTheme)) True False"

definition themeMapsFile :: "(string \<Rightarrow> string) \<Rightarrow> string object object \<Rightarrow> node" where
  "themeMapsFile formatTokenName themes =
     StyleSheet ([FILE_BANNER] @ themeMaps formatTokenName themes @
       [defaultThemeComment, defaultThemeAlias])"

subsection \<open>The theme mixin\<close>

definition themeMixinComment :: node where
  "themeMixinComment = Comment
     (''/ Define theme variables from a map of tokens'' @ nl @
      ''/ @access public'' @ nl @
      ''/ @param {Map} $theme [$'' @ defaultThemeMapName @ ''] - Map of theme tokens'' @ nl @
      ''/ @content Pass in your custom declaration blocks to be used after the token maps set theming variables.'' @ nl @
      ''/'' @ nl @
      ''/ @example scss'' @ nl @
      ''/   // Default usage'' @ nl @
      ''/   @include carbon--theme();'' @ nl @
      ''/'' @ nl @
      ''/   // Alternate styling (not white theme)'' @ nl @
      ''/   @include carbon--theme($carbon--theme--g90) {'' @ nl @
      ''/     // declarations...'' @ nl @
      ''/   }'' @ nl @
      ''/'' @ nl @
      ''/   // Inline styling'' @ nl @
      ''/   @include carbon--theme($carbon--theme--g90) {'' @ nl @
      ''/     .my-dark-theme {'' @ nl @
      ''/       // declarations...'' @ nl @
      ''/     }'' @ nl @
      ''/   }'' @ nl @
      ''/'' @ nl @
      ''/ @group @carbon/themes'')"

text \<open>The global reassignment of one token inside the mixin.\<close>

definition themeAssignment :: "(string \<Rightarrow> string) \<Rightarrow> string \<Rightarrow> node" where
  "themeAssignment formatTokenName token =
     (let name = formatTokenName token in
      Assignment (Identifier name)
        (CallExpression (Identifier ''map-get'') [Identifier ''theme'', SassString name])
        False True)"

definition resetGuard :: node where
  "resetGuard =
     IfStatement
       (LogicalExpression (Identifier ''theme'') ''!='' (Identifier defaultThemeMapName))
       (BlockStatement [SassMixinCall (Identifier ''carbon--theme'')])"

definition themeMixinBody :: "(string \<Rightarrow> string) \<Rightarrow> string list \<Rightarrow> node list" where
  "themeMixinBody formatTokenName tokenColors =
     map (themeAssignment formatTokenName) tokenColors @
     [AtContent,
      Comment '' Reset to default theme after apply in content'',
      resetGuard]"

definition themeMixinNode :: "(string \<Rightarrow> string) \<Rightarrow> string list \<Rightarrow> node" where
  "themeMixinNode formatTokenName tokenColors =
     SassMixin (Identifier ''carbon--theme'')
       [AssignmentPattern (Identifier ''theme'') (Identifier defaultThemeMapName)]
       (BlockStatement (themeMixinBody formatTokenName tokenColors))"

definition themeMixin :: "(string \<Rightarrow> string) \<Rightarrow> string list \<Rightarrow> node list" where
  "themeMixin formatTokenName tokenColors =
     [themeMixinComment, themeMixinNode formatTokenName tokenColors]"

definition mixinsFile :: "(string \<Rightarrow> string) \<Rightarrow> string list \<Rightarrow> node" where
  "mixinsFile formatTokenName tokenColors =
     StyleSheet ([FILE_BANNER, SassImport ''./theme-maps''] @
       themeMixin formatTokenName tokenColors)"

subsection \<open>Token metadata\<close>

text \<open>
  An entry of the metadata file's \<open>tokens\<close> sequence:
  \<open>{ name, role?: sequence of strings, alias?: string, deprecated?: boolean }\<close>.
  An optional field that is absent is \<open>None\<close>; \<open>deprecated\<close> is \<open>True\<close> when the field is
  present and true. The field \<open>alias\<close> is written \<open>alias'\<close>.
\<close>

record token_entry =
  name :: string
  role :: "string list option"
  alias' :: "string option"
  deprecated :: bool

subsection \<open>Token defaults\<close>

text \<open>
  \<open>tokensFile\<close> is built from the metadata \<open>transformMetadata\<close> has returned, whose
  \<open>tokens\<close> is then a sequence of entries (it has thrown otherwise), so
  \<open>metadata.tokens && metadata.tokens.find(...)\<close> is the \<open>find\<close>, and \<open>|| {}\<close> replaces
  a failed search by an object with no field. Each element of the array literal is a node
  or a falsy value (\<open>None\<close>), and \<open>.filter(Boolean)\<close> keeps the nodes. An array is truthy
  even when empty, an empty string is falsy.
\<close>

definition typeComment :: node where
  "typeComment = Comment
     (''/ @type Color'' @ nl @
      ''/ @access public'' @ nl @
      ''/ @group @carbon/themes'')"

definition tokenAssignment :: "(string \<Rightarrow> string) \<Rightarrow> string \<Rightarrow> node" where
  "tokenAssignment formatTokenName token =
     (let name = formatTokenName token in
      Assignment (Identifier name)
        (CallExpression (Identifier ''map-get'')
           [Identifier defaultThemeMapName, SassString name])
        True False)"

definition tokenBlock :: "(string \<Rightarrow> string) \<Rightarrow> token_entry list \<Rightarrow> string \<Rightarrow> node list" where
  "tokenBlock formatTokenName metadata_tokens token =
     (let tokenData = find (\<lambda>tok. name tok = token) metadata_tokens;
          tokenData_role = Option.bind tokenData role;
          tokenData_alias = Option.bind tokenData alias';
          tokenData_deprecated = (case tokenData of None \<Rightarrow> False | Some tok \<Rightarrow> deprecated tok)
      in List.map_filter (\<lambda>x. x)
        [map_option (\<lambda>r. Comment (''/ '' @ join ''; '' r)) tokenData_role,
         Some typeComment,
         (case tokenData_alias of
            None \<Rightarrow> None
          | Some a \<Rightarrow> if a = [] then None else Some (Comment (''/ @alias '' @ a))),
         (if tokenData_deprecated then Some (Comment ''/ @deprecated'') else None),
         Some (tokenAssignment formatTokenName token)])"

definition tokensFile :: "(string \<Rightarrow> string) \<Rightarrow> string list \<Rightarrow> token_entry list \<Rightarrow> node" where
  "tokensFile formatTokenName tokenColors metadata_tokens =
     StyleSheet ([FILE_BANNER, SassImport ''./theme-maps''] @
       concat (map (tokenBlock formatTokenName metadata_tokens) tokenColors))"

text \<open>Reading a style sheet: its top-level declarations, and the assignments among nodes.\<close>

fun declarations :: "node \<Rightarrow> node list" where
  "declarations (StyleSheet ds) = ds"
| "declarations _ = []"

fun is_Assignment :: "node \<Rightarrow> bool" where
  "is_Assignment (Assignment _ _ _ _) = True"
| "is_Assignment _ = False"

subsection \<open>Outcomes\<close>

text \<open>
  A call returns or throws. \<open>TypeError\<close> and \<open>SyntaxError\<close> are the two errors the
  language itself raises in this script; \<open>Failure\<close> is an error of the file system or of
  a package, with its message.
\<close>

datatype error = TypeError | SyntaxError | Failure string

datatype 'a outcome = Returns 'a | Throws error

subsection \<open>The metadata document\<close>

text \<open>
  \<open>yaml.safeLoad\<close> gives \<open>transformMetadata\<close> whatever the file holds. \<open>Nullish\<close> is the
  document of an empty file (\<open>undefined\<close>) or \<open>null\<close>; otherwise the value has a \<open>tokens\<close>
  property that is missing (\<open>undefined\<close>), \<open>null\<close>, an array, or some other value. An item
  of the array is an entry or \<open>null\<close> (\<open>None\<close>). Every entry and every \<open>role\<close> array is an
  object of its own: a document whose anchors share one is outside this model.
\<close>

datatype tokens_field =
    Tokens_undefined
  | Tokens_null
  | Tokens_other
  | Tokens_array "token_entry option list"

datatype metadata = Nullish | Metadata tokens_field

text \<open>The metadata object whose \<open>tokens\<close> are the given entries.\<close>

definition as_metadata :: "token_entry list \<Rightarrow> metadata" where
  "as_metadata toks = Metadata (Tokens_array (map Some toks))"

subsection \<open>The pattern of token names\<close>

text \<open>
  \<open>new RegExp(names.join('|'), 'g')\<close> has one use,
  \<open>role.replace(namesRegEx, match => ...)\<close>. The syntax characters of the pattern language are \<open>^ $ \ . * + ? ( ) [ ] { } |\<close>. When
  no name contains one, the pattern is the ordered alternation of the names as literal
  strings; joining no name at all gives the empty pattern, which matches the empty string.
\<close>

definition syntax_characters :: "char list" where
  "syntax_characters = ''^$.*+?()[]{}|'' @ [CHR 0x5C]"

definition literal_name :: "string \<Rightarrow> bool" where
  "literal_name n = list_all (\<lambda>c. c \<notin> set syntax_characters) n"

text \<open>
  The rewriting of a line by an alternation \<open>alts\<close> of literals and the replacer \<open>f\<close>.
  The search restarts at index 0 on every call. At each index the first alternative that is a prefix of the rest of the string matches (ordered choice, not the
  longest); with no match there the character is copied and the search moves one index on.
  After a match the search goes on behind it; after an empty match the next character is
  copied first. The end of the string is an index too, where only the empty alternative
  matches.
\<close>

function replace :: "string list \<Rightarrow> (string \<Rightarrow> string) \<Rightarrow> string \<Rightarrow> string" where
  "replace alts f s =
     (case find (\<lambda>a. prefix a s) alts of
        None \<Rightarrow> (case s of [] \<Rightarrow> [] | c # cs \<Rightarrow> c # replace alts f cs)
      | Some m \<Rightarrow>
          (if m = [] then f m @ (case s of [] \<Rightarrow> [] | c # cs \<Rightarrow> c # replace alts f cs)
           else f m @ replace alts f (drop (length m) s)))"
  by pat_completeness auto
termination
proof (relation "measure (\<lambda>(alts, f, s). length s)")
  fix alts :: "string list" and f :: "string \<Rightarrow> string" and s m :: string
  assume "find (\<lambda>a. prefix a s) alts = Some m" and "m \<noteq> []"
  then have "prefix m s"
    by (auto simp: find_Some_iff)
  with \<open>m \<noteq> []\<close> have "s \<noteq> []"
    by auto
  with \<open>m \<noteq> []\<close> show "((alts, f, drop (length m) s), (alts, f, s)) \<in> measure (\<lambda>(alts, f, s). length s)"
    by simp
qed simp_all

declare replace.simps [simp del]

text \<open>
  No alternative matches at an index inside \<open>pre\<close> when \<open>pre\<close> is followed by \<open>s\<close>: the
  search crosses \<open>pre\<close> without a match.
\<close>

definition no_match_within :: "string list \<Rightarrow> string \<Rightarrow> string \<Rightarrow> bool" where
  "no_match_within alts pre s =
     list_all (\<lambda>i. find (\<lambda>a. prefix a (drop i (pre @ s))) alts = None) [0..<length pre]"

subsection \<open>The metadata transformer\<close>

text \<open>
  \<open>replaceMap\<close> starts as \<open>{}\<close> and gets \<open>replaceMap[token.name] = formatTokenName(token.name)\<close>
  for every token. An assignment at the key \<open>__proto__\<close> with a string is the inherited
  setter, which ignores it, and a read at that key is \<open>Object.prototype\<close>, which the
  concatenation turns into \<open>[object Object]\<close>. The replacer reads \<open>replaceMap[match]\<close>;
  with an alternation of literals \<open>match\<close> is one of the names whenever there is a role
  line to rewrite. A key with no property would concatenate as \<open>undefined\<close>.
\<close>

definition replaceMap :: "(string \<Rightarrow> string) \<Rightarrow> string list \<Rightarrow> (string \<rightharpoonup> string)" where
  "replaceMap formatTokenName names =
     fold (\<lambda>n m. if n = ''__proto__'' then m else m(n \<mapsto> formatTokenName n)) names Map.empty"

definition replacer :: "(string \<rightharpoonup> string) \<Rightarrow> string \<Rightarrow> string" where
  "replacer m match =
     ''`$'' @
     (if match = ''__proto__'' then ''[object Object]''
      else case m match of Some v \<Rightarrow> v | None \<Rightarrow> ''undefined'') @
     ''`''"

text \<open>
  The pattern language beyond literal alternations is not defined here. For a source with
  a syntax character, what the constructor and the rewriting do is the parameter
  \<open>engine\<close>: it gives the error the constructor throws (\<open>SyntaxError\<close> where the source
  is no pattern) or, for the properties of \<open>replaceMap\<close> that the callback reads, the
  rewriting of a line. \<open>namesRegEx\<close> is the pattern as the rewriting it performs.
\<close>

type_synonym rewriting = "(string \<rightharpoonup> string) \<Rightarrow> string \<Rightarrow> string"

type_synonym pattern_engine = "string \<Rightarrow> error + rewriting"

definition namesRegEx :: "pattern_engine \<Rightarrow> string list \<Rightarrow> error + rewriting" where
  "namesRegEx engine names =
     (if list_all literal_name names
      then Inr (\<lambda>rmap. replace (if names = [] then [[]] else names) (replacer rmap))
      else engine (join ''|'' names))"

text \<open>
  The body of \<open>metadata.tokens.forEach\<close>: every line of a \<open>role\<close> that is present is
  rewritten; an \<open>alias\<close> that is present and not the empty string becomes
  \<open>formatTokenName(token.alias)\<close>.
\<close>

definition transformToken ::
  "(string \<Rightarrow> string) \<Rightarrow> (string \<Rightarrow> string) \<Rightarrow> token_entry \<Rightarrow> token_entry" where
  "transformToken formatTokenName rewrite token =
     token\<lparr>role := map_option (map rewrite) (role token),
           alias' := map_option (\<lambda>a. if a = [] then a else formatTokenName a) (alias' token)\<rparr>"

text \<open>
  \<open>transformMetadata\<close> returns the object it was given, rewritten in place; its \<open>tokens\<close>
  are then an array of entries, and the model returns that array. \<open>metadata.tokens.map\<close>
  throws \<open>TypeError\<close> unless \<open>metadata\<close> is an object whose \<open>tokens\<close> is an array, and the
  callback \<open>token => token.name\<close> throws it at a \<open>null\<close> item. The constructor of the
  pattern comes next and may throw; then \<open>replaceMap\<close> is filled and the entries are
  rewritten.
\<close>

definition transformMetadata ::
  "pattern_engine \<Rightarrow> (string \<Rightarrow> string) \<Rightarrow> metadata \<Rightarrow> token_entry list outcome" where
  "transformMetadata engine formatTokenName metadata =
     (case metadata of
        Nullish \<Rightarrow> Throws TypeError
      | Metadata Tokens_undefined \<Rightarrow> Throws TypeError
      | Metadata Tokens_null \<Rightarrow> Throws TypeError
      | Metadata Tokens_other \<Rightarrow> Throws TypeError
      | Metadata (Tokens_array items) \<Rightarrow>
          (case those items of
             None \<Rightarrow> Throws TypeError
           | Some toks \<Rightarrow>
               (case namesRegEx engine (map name toks) of
                  Inl err \<Rightarrow> Throws err
                | Inr rewrite \<Rightarrow>
                    Returns (map (transformToken formatTokenName
                      (rewrite (replaceMap formatTokenName (map name toks)))) toks))))"

subsection \<open>A formatter for closed examples\<close>

text \<open>
  Modelled from the spec: \<open>formatTokenName\<close> of \<open>../lib\<close> is not among the sources. The
  spec calls it the token name formatter, a pure function from a raw token key to its
  canonical dashed name, and gives \<open>interactive01\<close> to \<open>interactive-01\<close>; the task's
  comments add \<open>brand01\<close> to \<open>brand-01\<close>. This instance puts the dash before the number
  that ends the key and leaves a key without digits as it is. It stands for the parameter
  \<open>formatTokenName\<close> in closed examples only; every general theorem is about any formatter.
\<close>

fun formatTokenName_spec :: "string \<Rightarrow> string" where
  "formatTokenName_spec [] = []"
| "formatTokenName_spec (c # cs) =
     (if c \<in> set ''0123456789'' then CHR ''-'' # c # cs
      else c # formatTokenName_spec cs)"

subsection \<open>The run\<close>

text \<open>
  What \<open>build\<close> takes from outside: \<open>loadMetadata\<close> is
  \<open>yaml.safeLoad(fs.readFileSync(METADATA_FILE, 'utf8'))\<close>, which throws or yields the
  document; \<open>patterns\<close> is the pattern engine of \<open>transformMetadata\<close>; \<open>generate\<close> is the serializer's \<open>generate(file).code\<close>; \<open>ensureDir\<close> and
  \<open>writeFile\<close> are the two calls of \<open>fs-extra\<close>, \<open>None\<close> when they succeed. What a run
  leaves behind is a \<open>process\<close>: the messages of the reporter, the errors printed by
  \<open>console.error\<close>, the files written, and the exit status, which is 0 unless the program
  sets \<open>process.exitCode\<close> or calls \<open>process.exit\<close>.
\<close>

datatype entrypoint = TOKENS_ENTRYPOINT | MIXINS_ENTRYPOINT | MAPS_ENTRYPOINT

record env =
  loadMetadata :: "error + metadata"
  patterns :: pattern_engine
  generate :: "node \<Rightarrow> error + string"
  ensureDir :: "error option"
  writeFile :: "entrypoint \<Rightarrow> string \<Rightarrow> error option"

record process =
  reported :: "string list"
  printed_errors :: "error list"
  written :: "(entrypoint \<times> string) list"
  exitCode :: nat

definition start :: process where
  "start = \<lparr>reported = [], printed_errors = [], written = [], exitCode = 0\<rparr>"

definition info_message :: string where
  "info_message = ''Building scss files for themes...''"

text \<open>\<open>'Done! '\<close> followed by the party popper, here as its four bytes in UTF-8.\<close>

definition success_message :: string where
  "success_message = ''Done! '' @ [CHR 0xF0, CHR 0x9F, CHR 0x8E, CHR 0x89]"

text \<open>The file written at each entry point.\<close>

definition document ::
  "(string \<Rightarrow> string) \<Rightarrow> string object object \<Rightarrow> string list \<Rightarrow> token_entry list \<Rightarrow>
   entrypoint \<Rightarrow> node" where
  "document formatTokenName themes tokenColors metadata_tokens path =
     (case path of
        TOKENS_ENTRYPOINT \<Rightarrow> tokensFile formatTokenName tokenColors metadata_tokens
      | MIXINS_ENTRYPOINT \<Rightarrow> mixinsFile formatTokenName tokenColors
      | MAPS_ENTRYPOINT \<Rightarrow> themeMapsFile formatTokenName themes)"

text \<open>
  \<open>await fs.writeFile(PATH, generate(file).code)\<close>, one after the other: the first throw
  ends the sequence.
\<close>

fun write_files ::
  "env \<Rightarrow> (entrypoint \<times> node) list \<Rightarrow> process \<Rightarrow> process \<times> unit outcome" where
  "write_files e [] p = (p, Returns ())"
| "write_files e ((path, file) # rest) p =
     (case generate e file of
        Inl err \<Rightarrow> (p, Throws err)
      | Inr code \<Rightarrow>
          (case writeFile e path code of
             Some err \<Rightarrow> (p, Throws err)
           | None \<Rightarrow> write_files e rest (p\<lparr>written := written p @ [(path, code)]\<rparr>)))"

definition build ::
  "env \<Rightarrow> (string \<Rightarrow> string) \<Rightarrow> string object object \<Rightarrow> string list \<Rightarrow> process \<Rightarrow>
   process \<times> unit outcome" where
  "build e formatTokenName themes tokenColors p0 =
     (let p = p0\<lparr>reported := reported p0 @ [info_message]\<rparr> in
      case loadMetadata e of
        Inl err \<Rightarrow> (p, Throws err)
      | Inr loaded \<Rightarrow>
          (case transformMetadata (patterns e) formatTokenName loaded of
             Throws err \<Rightarrow> (p, Throws err)
           | Returns metadata_tokens \<Rightarrow>
               (case ensureDir e of
                  Some err \<Rightarrow> (p, Throws err)
                | None \<Rightarrow>
                    (case write_files e
                       (map (\<lambda>path. (path,
                          document formatTokenName themes tokenColors metadata_tokens path))
                          [TOKENS_ENTRYPOINT, MIXINS_ENTRYPOINT, MAPS_ENTRYPOINT]) p of
                       (p', Returns u) \<Rightarrow>
                         (p'\<lparr>reported := reported p' @ [success_message]\<rparr>, Returns ())
                     | (p', Throws err) \<Rightarrow> (p', Throws err)))))"

text \<open>
  The module's last statement, \<open>build().catch(error => { console.error(error); })\<close>: the
  handler prints the error and returns, which settles the chain.
\<close>

definition main ::
  "env \<Rightarrow> (string \<Rightarrow> string) \<Rightarrow> string object object \<Rightarrow> string list \<Rightarrow>
   process \<times> unit outcome" where
  "main e formatTokenName themes tokenColors =
     (case build e formatTokenName themes tokenColors start of
        (p, Throws err) \<Rightarrow> (p\<lparr>printed_errors := printed_errors p @ [err]\<rparr>, Returns ())
      | (p, Returns u) \<Rightarrow> (p, Returns ()))"

subsection \<open>What the mixin does when a style sheet includes it\<close>








fun mixin_bodies :: "node list \<Rightarrow> node list list" where
  "mixin_bodies [] = []"
| "mixin_bodies (SassMixin i ps (BlockStatement body) # ds) = body # mixin_bodies ds"
| "mixin_bodies (d # ds) = mixin_bodies ds"

fun is_SassMixin :: "node \<Rightarrow> bool" where
  "is_SassMixin (SassMixin _ _ _) = True"
| "is_SassMixin _ = False"

fun assigns :: "string \<Rightarrow> node \<Rightarrow> bool" where
  "assigns x (Assignment (Identifier y) init dflt glob) = (x = y)"
| "assigns x _ = False"

subsection \<open>Inputs of the closed examples\<close>

definition white_only :: "string object object" where
  "white_only = [(''white'', [(''interactive01'', ''#0f62fe'')])]"

text \<open>Two themes, the second with its tokens in another order than the first.\<close>

definition two_themes :: "string object object" where
  "two_themes =
     [(''white'', [(''interactive01'', ''#0f62fe''), (''ui01'', ''#ffffff'')]),
      (''g90'', [(''ui01'', ''#262626''), (''interactive01'', ''#4589ff'')])]"

definition g90_only :: "string object object" where
  "g90_only = [(''g90'', [(''interactive01'', ''#4589ff'')])]"

definition alias_example :: metadata where
  "alias_example = as_metadata
     [\<lparr>name = ''brand01'', role = None, alias' = None, deprecated = False\<rparr>,
      \<lparr>name = ''interactive01'', role = None, alias' = Some ''brand01'', deprecated = False\<rparr>]"

definition prefix_example :: metadata where
  "prefix_example = as_metadata
     [\<lparr>name = ''field'', role = None, alias' = None, deprecated = False\<rparr>,
      \<lparr>name = ''field01'', role = Some [''field01''], alias' = None, deprecated = False\<rparr>]"

definition null_item_example :: metadata where
  "null_item_example = Metadata (Tokens_array
     [Some \<lparr>name = ''interactive01'', role = None, alias' = None, deprecated = False\<rparr>, None])"

text \<open>
  A pattern engine that refuses every source. The examples consult it at one source only,
  \<open>(\<close>, an unterminated group, which \<open>RegExp\<close> refuses with \<open>SyntaxError\<close>; where the
  names are literal it is not consulted.
\<close>

definition refusing_engine :: pattern_engine where
  "refusing_engine source = Inl SyntaxError"

definition group_example :: metadata where
  "group_example = as_metadata
     [\<lparr>name = ''('', role = Some [''An open group''], alias' = None, deprecated = False\<rparr>]"

text \<open>
  An environment whose serializer and file system never fail: only the loading of the
  metadata is left open.
\<close>

definition quiet_env :: "error + metadata \<Rightarrow> env" where
  "quiet_env loaded =
     \<lparr>loadMetadata = loaded, patterns = refusing_engine, generate = (\<lambda>file. Inr []),
      ensureDir = None, writeFile = (\<lambda>path code. None)\<rparr>"

definition interactive_example :: "token_entry list" where
  "interactive_example =
     [\<lparr>name = ''interactive01'', role = Some [''Primary interactive color; see interactive01''],
       alias' = Some ''focus'', deprecated = False\<rparr>]"

definition brand_example :: "token_entry list" where
  "brand_example =
     [\<lparr>name = ''brand01'', role = Some [''Primary brand color''], alias' = None,
       deprecated = False\<rparr>,
      \<lparr>name = ''interactive01'', role = Some [''Interactive color; replaces brand01''],
       alias' = Some ''brand01'', deprecated = True\<rparr>]"

definition backquote_example :: metadata where
  "backquote_example = as_metadata
     [\<lparr>name = ''a`'', role = None, alias' = None, deprecated = False\<rparr>,
      \<lparr>name = ''b'', role = Some [''ab''], alias' = None, deprecated = False\<rparr>]"

definition focus_example :: metadata where
  "focus_example = as_metadata
     [\<lparr>name = ''focus'', role = Some [''Border of focus''], alias' = None, deprecated = False\<rparr>]"

text \<open>An environment in which the second file cannot be written.\<close>

definition mixins_unwritable :: env where
  "mixins_unwritable =
     \<lparr>loadMetadata = Inr alias_example, patterns = refusing_engine,
      generate = (\<lambda>file. Inr []), ensureDir = None,
      writeFile = (\<lambda>path code.
        if path = MIXINS_ENTRYPOINT then Some (Failure ''EACCES'') else None)\<rparr>"







section \<open>Properties\<close>

subsection \<open>Token defaults\<close>

lemma is_Assignment_FILE_BANNER: "\<not> is_Assignment FILE_BANNER"
  by (simp add: FILE_BANNER_def)

lemma is_Assignment_typeComment: "\<not> is_Assignment typeComment"
  by (simp add: typeComment_def)

lemma is_Assignment_tokenAssignment: "is_Assignment (tokenAssignment f token)"
  by (simp add: tokenAssignment_def Let_def)

lemma filter_tokenBlock:
  "filter is_Assignment (tokenBlock f md token) = [tokenAssignment f token]"
  by (cases "Option.bind (find (\<lambda>tok. name tok = token) md) role")
    (simp_all add: tokenBlock_def Let_def List.map_filter_def
      is_Assignment_typeComment is_Assignment_tokenAssignment
      split: option.splits)

lemma concat_map_singleton: "concat (map (\<lambda>x. [g x]) xs) = map g xs"
  by (induction xs) simp_all

text \<open>
  C1. Whatever the metadata, the assignments among the declarations of the token defaults
  module are, in the order of the canonical token list, one per token: the variable named
  by the token's formatted name, flagged \<open>!default\<close> and not \<open>!global\<close>, initialised by
  \<open>map-get\<close> of that formatted name in the default map identifier.
\<close>

theorem tokensFile_assignments:
  "filter is_Assignment (declarations (tokensFile formatTokenName tokenColors metadata_tokens)) =
     map (\<lambda>token.
       Assignment (Identifier (formatTokenName token))
         (CallExpression (Identifier ''map-get'')
            [Identifier defaultThemeMapName, SassString (formatTokenName token)])
         True False) tokenColors"
proof -
  have "filter is_Assignment
          (declarations (tokensFile formatTokenName tokenColors metadata_tokens)) =
        concat (map (\<lambda>token. [tokenAssignment formatTokenName token]) tokenColors)"
    by (simp add: tokensFile_def is_Assignment_FILE_BANNER filter_concat comp_def
        filter_tokenBlock)
  then show ?thesis
    by (simp add: concat_map_singleton tokenAssignment_def Let_def)
qed

subsection \<open>The mixin's assignments and the theme maps\<close>

lemma themeAssignment_not_AtContent: "themeAssignment f token \<noteq> AtContent"
  by (simp add: themeAssignment_def Let_def)

lemma takeWhile_map_append:
  "(\<And>x. P (g x)) \<Longrightarrow> \<not> P y \<Longrightarrow> takeWhile P (map g xs @ y # ys) = map g xs"
  by (induction xs) simp_all

text \<open>
  C2. Whatever the theme table and the metadata, the mixins module holds one mixin: it is
  named \<open>carbon--theme\<close> and has the one parameter \<open>theme\<close>, which defaults to the default
  map identifier. The statements of its body before the first \<open>@content\<close> are, in the
  order of the canonical token list, one per token: the \<open>!global\<close> assignment of the
  variable named by the token's formatted name from \<open>map-get\<close> of that name in the
  parameter \<open>theme\<close>. The statement right after them is \<open>@content\<close>.
\<close>

theorem themeMixin_reassignments:
  "filter is_SassMixin (declarations (document formatTokenName themes tokenColors
      metadata_tokens MIXINS_ENTRYPOINT)) =
     [SassMixin (Identifier ''carbon--theme'')
        [AssignmentPattern (Identifier ''theme'') (Identifier defaultThemeMapName)]
        (BlockStatement (themeMixinBody formatTokenName tokenColors))] \<and>
   mixin_bodies (declarations (document formatTokenName themes tokenColors metadata_tokens
      MIXINS_ENTRYPOINT)) = [themeMixinBody formatTokenName tokenColors] \<and>
   takeWhile (\<lambda>n. n \<noteq> AtContent) (themeMixinBody formatTokenName tokenColors) =
     map (\<lambda>token.
       Assignment (Identifier (formatTokenName token))
         (CallExpression (Identifier ''map-get'')
            [Identifier ''theme'', SassString (formatTokenName token)])
         False True) tokenColors \<and>
   themeMixinBody formatTokenName tokenColors ! length tokenColors = AtContent"
proof (intro conjI)
  show "filter is_SassMixin (declarations (document formatTokenName themes tokenColors
      metadata_tokens MIXINS_ENTRYPOINT)) =
     [SassMixin (Identifier ''carbon--theme'')
        [AssignmentPattern (Identifier ''theme'') (Identifier defaultThemeMapName)]
        (BlockStatement (themeMixinBody formatTokenName tokenColors))]"
    by (simp add: document_def mixinsFile_def themeMixin_def themeMixinNode_def
        FILE_BANNER_def themeMixinComment_def)
next
  show "mixin_bodies (declarations (document formatTokenName themes tokenColors metadata_tokens
      MIXINS_ENTRYPOINT)) = [themeMixinBody formatTokenName tokenColors]"
    by (simp add: document_def mixinsFile_def themeMixin_def themeMixinNode_def
        FILE_BANNER_def themeMixinComment_def)
next
  have "takeWhile (\<lambda>n. n \<noteq> AtContent) (themeMixinBody formatTokenName tokenColors) =
        map (themeAssignment formatTokenName) tokenColors"
    unfolding themeMixinBody_def
    by (rule takeWhile_map_append) (simp_all add: themeAssignment_not_AtContent)
  then show "takeWhile (\<lambda>n. n \<noteq> AtContent) (themeMixinBody formatTokenName tokenColors) =
     map (\<lambda>token.
       Assignment (Identifier (formatTokenName token))
         (CallExpression (Identifier ''map-get'')
            [Identifier ''theme'', SassString (formatTokenName token)])
         False True) tokenColors"
    by (simp add: themeAssignment_def Let_def)
next
  show "themeMixinBody formatTokenName tokenColors ! length tokenColors = AtContent"
    by (simp add: themeMixinBody_def nth_append)
qed

lemma object_entries:
  assumes "distinct (Object_keys obj)"
  shows "map (\<lambda>k. g k (the (get obj k))) (Object_keys obj) = map (\<lambda>(k, v). g k v) obj"
proof -
  have "g (fst kv) (the (get obj (fst kv))) = (case kv of (k, v) \<Rightarrow> g k v)" if "kv \<in> set obj" for kv
  proof -
    obtain k v where kv: "kv = (k, v)" by (cases kv)
    with that assms have "map_of obj k = Some v"
      by (simp add: Object_keys_def)
    with kv show ?thesis by (simp add: get_def)
  qed
  then show ?thesis
    by (simp add: Object_keys_def)
qed

lemma themeVariable_entries:
  assumes "distinct (Object_keys theme)"
  shows "themeVariable f nm theme =
     Assignment (Identifier (''carbon--theme--'' @ nm))
       (SassMap (map (\<lambda>(token, color).
          SassMapProperty (Identifier (f token)) (SassColor color)) theme))
       True False"
  unfolding themeVariable_def
  using object_entries [OF assms, of "\<lambda>token color. SassMapProperty (Identifier (f token)) (SassColor color)"]
  by simp

lemma themeMaps_entries:
  assumes "distinct (Object_keys themes)"
    and "list_all (\<lambda>(name, theme). distinct (Object_keys theme)) themes"
  shows "themeMaps f themes =
     concat (map (\<lambda>(name, theme).
       [themeComment name,
        Assignment (Identifier (''carbon--theme--'' @ name))
          (SassMap (map (\<lambda>(token, color).
             SassMapProperty (Identifier (f token)) (SassColor color)) theme))
          True False]) themes)"
proof -
  have "themeMaps f themes =
      concat (map (\<lambda>(name, theme). [themeComment name, themeVariable f name theme]) themes)"
    unfolding themeMaps_def
    using object_entries [OF assms(1), of "\<lambda>name theme. [themeComment name, themeVariable f name theme]"]
    by simp
  also have "\<dots> = concat (map (\<lambda>(name, theme).
       [themeComment name,
        Assignment (Identifier (''carbon--theme--'' @ name))
          (SassMap (map (\<lambda>(token, color).
             SassMapProperty (Identifier (f token)) (SassColor color)) theme))
          True False]) themes)"
    using assms(2)
    by (intro arg_cong [where f = concat] map_cong refl)
      (auto simp: list_all_iff themeVariable_entries)
  finally show ?thesis .
qed

text \<open>
  C6. For a theme table and themes that are objects (each key once), the theme maps module
  is the banner, then for every theme in the order of the table its documentation comment,
  \<open>Carbon's <name> color theme\<close> with its three tags, followed by one \<open>!default\<close>
  assignment of
  \<open>carbon--theme--<name>\<close> to a map literal with one property for each token of the
  theme's own table, in that table's order, keyed by the formatted token name and valued
  by the table's color, and last the comment and the alias of the default theme.
\<close>

theorem themeMapsFile_declarations:
  assumes "distinct (Object_keys themes)"
    and "list_all (\<lambda>(name, theme). distinct (Object_keys theme)) themes"
  shows "declarations (document formatTokenName themes tokenColors metadata_tokens MAPS_ENTRYPOINT) =
     [FILE_BANNER] @
     concat (map (\<lambda>(name, theme).
       [Comment (''/ Carbon's '' @ name @ '' color theme'' @ [CHR 0x0A] @
           ''/ @type Map'' @ [CHR 0x0A] @
           ''/ @access public'' @ [CHR 0x0A] @
           ''/ @group @carbon/themes''),
        Assignment (Identifier (''carbon--theme--'' @ name))
          (SassMap (map (\<lambda>(token, color).
             SassMapProperty (Identifier (formatTokenName token)) (SassColor color)) theme))
          True False]) themes) @
     [defaultThemeComment, defaultThemeAlias]"
  by (simp add: document_def themeMapsFile_def themeMaps_entries [OF assms] themeComment_def nl_def)

theorem themeMapsFile_declarations_witness:
  "declarations (document formatTokenName_spec two_themes [''interactive01'', ''ui01''] []
      MAPS_ENTRYPOINT) =
     [FILE_BANNER,
      Comment (''/ Carbon's white color theme'' @ [CHR 0x0A] @
        ''/ @type Map'' @ [CHR 0x0A] @
        ''/ @access public'' @ [CHR 0x0A] @
        ''/ @group @carbon/themes''),
      Assignment (Identifier ''carbon--theme--white'')
        (SassMap
          [SassMapProperty (Identifier ''interactive-01'') (SassColor ''#0f62fe''),
           SassMapProperty (Identifier ''ui-01'') (SassColor ''#ffffff'')])
        True False,
      Comment (''/ Carbon's g90 color theme'' @ [CHR 0x0A] @
        ''/ @type Map'' @ [CHR 0x0A] @
        ''/ @access public'' @ [CHR 0x0A] @
        ''/ @group @carbon/themes''),
      Assignment (Identifier ''carbon--theme--g90'')
        (SassMap
          [SassMapProperty (Identifier ''ui-01'') (SassColor ''#262626''),
           SassMapProperty (Identifier ''interactive-01'') (SassColor ''#4589ff'')])
        True False,
      defaultThemeComment, defaultThemeAlias]"
  using themeMapsFile_declarations
    [of two_themes formatTokenName_spec "[''interactive01'', ''ui01'']" "[]"]
  by (simp add: two_themes_def Object_keys_def)

subsection \<open>The alias of the default theme\<close>

lemma assigns_themeComment: "\<not> assigns x (themeComment nm)"
  by (simp add: themeComment_def)

lemma assigns_themeVariable:
  "assigns x (themeVariable f nm theme) = (x = ''carbon--theme--'' @ nm)"
  by (simp add: themeVariable_def)

lemma assigns_themeMaps:
  "filter (assigns x) (themeMaps f themes) =
     concat (map (\<lambda>nm. if x = ''carbon--theme--'' @ nm
        then [themeVariable f nm (the (get themes nm))] else []) (Object_keys themes))"
  by (simp add: themeMaps_def filter_concat comp_def assigns_themeComment
      assigns_themeVariable cong: if_cong)

lemma concat_map_Nil: "(\<And>x. x \<in> set xs \<Longrightarrow> g x = []) \<Longrightarrow> concat (map g xs) = []"
  by (induction xs) simp_all

text \<open>
  C8. For every theme table the last declaration of the theme maps module is the
  \<open>!default\<close> assignment of the default map identifier to the identifier
  \<open>carbon--theme--<default theme>\<close>, and it is the only assignment to that identifier
  in the module. Building the tree raises nothing. When the table has no theme of the
  default name, no declaration of the module assigns \<open>carbon--theme--<default theme>\<close>:
  the alias refers to a variable the module does not define.
\<close>

theorem default_alias_unconditional:
  "last (declarations (document formatTokenName themes tokenColors metadata_tokens MAPS_ENTRYPOINT)) =
     Assignment (Identifier defaultThemeMapName)
       (Identifier (''carbon--theme--'' @ defaultTheme)) True False \<and>
   filter (assigns defaultThemeMapName)
     (declarations (document formatTokenName themes tokenColors metadata_tokens MAPS_ENTRYPOINT)) =
     [Assignment (Identifier defaultThemeMapName)
       (Identifier (''carbon--theme--'' @ defaultTheme)) True False] \<and>
   (get themes defaultTheme = None \<longrightarrow>
     filter (assigns (''carbon--theme--'' @ defaultTheme))
       (declarations (document formatTokenName themes tokenColors metadata_tokens MAPS_ENTRYPOINT)) = [])"
proof (intro conjI impI)
  show "last (declarations (document formatTokenName themes tokenColors metadata_tokens MAPS_ENTRYPOINT)) =
     Assignment (Identifier defaultThemeMapName)
       (Identifier (''carbon--theme--'' @ defaultTheme)) True False"
    by (simp add: document_def themeMapsFile_def defaultThemeAlias_def)
next
  have "filter (assigns defaultThemeMapName) (themeMaps formatTokenName themes) = []"
    unfolding assigns_themeMaps
    by (rule concat_map_Nil) (simp add: defaultThemeMapName_def)
  then show "filter (assigns defaultThemeMapName)
     (declarations (document formatTokenName themes tokenColors metadata_tokens MAPS_ENTRYPOINT)) =
     [Assignment (Identifier defaultThemeMapName)
       (Identifier (''carbon--theme--'' @ defaultTheme)) True False]"
    by (simp add: document_def themeMapsFile_def defaultThemeAlias_def FILE_BANNER_def
        defaultThemeComment_def)
next
  assume none: "get themes defaultTheme = None"
  then have "defaultTheme \<notin> set (Object_keys themes)"
    by (simp add: get_def Object_keys_def map_of_eq_None_iff)
  then have "filter (assigns (''carbon--theme--'' @ defaultTheme)) (themeMaps formatTokenName themes) = []"
    unfolding assigns_themeMaps
    by (intro concat_map_Nil) auto
  then show "filter (assigns (''carbon--theme--'' @ defaultTheme))
       (declarations (document formatTokenName themes tokenColors metadata_tokens MAPS_ENTRYPOINT)) = []"
    by (simp add: document_def themeMapsFile_def defaultThemeAlias_def FILE_BANNER_def
        defaultThemeComment_def defaultThemeMapName_def)
qed

theorem default_alias_unconditional_witness:
  "get g90_only defaultTheme = None \<and>
   declarations (document formatTokenName_spec g90_only [''interactive01''] [] MAPS_ENTRYPOINT) =
     [FILE_BANNER, themeComment ''g90'',
      Assignment (Identifier ''carbon--theme--g90'')
        (SassMap [SassMapProperty (Identifier ''interactive-01'') (SassColor ''#4589ff'')])
        True False,
      defaultThemeComment,
      Assignment (Identifier ''carbon--theme'') (Identifier ''carbon--theme--white'') True False] \<and>
   filter (assigns ''carbon--theme--white'')
     (declarations (document formatTokenName_spec g90_only [''interactive01''] [] MAPS_ENTRYPOINT)) = []"
  using default_alias_unconditional [of formatTokenName_spec g90_only "[''interactive01'']" "[]"]
  by (simp add: g90_only_def get_def defaultTheme_def document_def themeMapsFile_def
      themeMaps_def Object_keys_def themeVariable_def defaultThemeAlias_def
      defaultThemeMapName_def)

subsection \<open>The metadata transformer\<close>

lemma those_map_Some: "those (map Some xs) = Some xs"
  by (induction xs) simp_all

lemma those_eq_Some: "those items = Some xs \<Longrightarrow> items = map Some xs"
proof (induction items arbitrary: xs)
  case Nil
  then show ?case by simp
next
  case (Cons a items)
  then show ?case by (auto split: option.splits)
qed

lemma those_eq_None: "None \<in> set items \<Longrightarrow> those items = None"
  by (induction items) (auto split: option.splits)

lemma transformMetadata_entries:
  "transformMetadata engine f (as_metadata toks) =
     (case namesRegEx engine (map name toks) of
        Inl err \<Rightarrow> Throws err
      | Inr rewrite \<Rightarrow>
          Returns (map (transformToken f (rewrite (replaceMap f (map name toks)))) toks))"
  by (simp add: transformMetadata_def as_metadata_def those_map_Some)

lemma transformMetadata_Returns:
  assumes "transformMetadata engine f md = Returns toks'"
  obtains toks rewrite where "md = as_metadata toks"
    and "namesRegEx engine (map name toks) = Inr rewrite"
    and "toks' = map (transformToken f (rewrite (replaceMap f (map name toks)))) toks"
proof -
  from assms obtain items where md: "md = Metadata (Tokens_array items)"
    by (auto simp: transformMetadata_def split: metadata.splits tokens_field.splits)
  with assms obtain toks where "those items = Some toks"
    by (auto simp: transformMetadata_def split: option.splits)
  then have "items = map Some toks"
    by (rule those_eq_Some)
  with md have eq: "md = as_metadata toks"
    by (simp add: as_metadata_def)
  with assms obtain rewrite where "namesRegEx engine (map name toks) = Inr rewrite"
    and "toks' = map (transformToken f (rewrite (replaceMap f (map name toks)))) toks"
    by (auto simp: transformMetadata_entries split: sum.splits)
  with eq that show thesis
    by blast
qed

text \<open>
  C5, as amended. When \<open>transformMetadata\<close> returns, the metadata was a sequence of
  entries, and the alias of every entry is: absent where it was absent, unchanged where it
  was the empty string, and otherwise \<open>formatTokenName\<close> of the whole alias. The alias is
  not searched for token names and gets no marker.
\<close>

theorem alias_formatted_whole:
  assumes "transformMetadata engine formatTokenName md = Returns toks'"
  shows "\<exists>toks. md = as_metadata toks \<and>
     map alias' toks' =
       map (\<lambda>token. map_option (\<lambda>a. if a = [] then a else formatTokenName a) (alias' token)) toks"
proof -
  from assms obtain toks rewrite where "md = as_metadata toks"
    and "toks' = map (transformToken formatTokenName
          (rewrite (replaceMap formatTokenName (map name toks)))) toks"
    by (rule transformMetadata_Returns)
  then show ?thesis
    by (auto simp: transformToken_def)
qed

lemma alias_example_result:
  "transformMetadata refusing_engine formatTokenName_spec alias_example = Returns
     [\<lparr>name = ''brand01'', role = None, alias' = None, deprecated = False\<rparr>,
      \<lparr>name = ''interactive01'', role = None, alias' = Some ''brand-01'', deprecated = False\<rparr>]"
  by (simp add: alias_example_def transformMetadata_entries namesRegEx_def literal_name_def
      syntax_characters_def transformToken_def)

theorem alias_formatted_whole_witness:
  "\<exists>toks. alias_example = as_metadata toks \<and>
     [None, Some ''brand-01''] =
       map (\<lambda>token. map_option (\<lambda>a. if a = [] then a else formatTokenName_spec a) (alias' token)) toks"
  using alias_formatted_whole [OF alias_example_result] by simp

text \<open>
  Against C5 as stated: the alias \<open>brand01\<close> of the second entry names the first token.
  The transformer leaves \<open>brand-01\<close> there, while the rewriting applied to role lines
  turns the same text into the marked reference.
\<close>

theorem alias_not_wrapped_counterexample:
  "transformMetadata refusing_engine formatTokenName_spec alias_example = Returns
     [\<lparr>name = ''brand01'', role = None, alias' = None, deprecated = False\<rparr>,
      \<lparr>name = ''interactive01'', role = None, alias' = Some ''brand-01'', deprecated = False\<rparr>] \<and>
   replace [''brand01'', ''interactive01'']
     (replacer (replaceMap formatTokenName_spec [''brand01'', ''interactive01''])) ''brand01'' =
     ''`$brand-01`''"
proof
  show "transformMetadata refusing_engine formatTokenName_spec alias_example = Returns
     [\<lparr>name = ''brand01'', role = None, alias' = None, deprecated = False\<rparr>,
      \<lparr>name = ''interactive01'', role = None, alias' = Some ''brand-01'', deprecated = False\<rparr>]"
    by (rule alias_example_result)
next
  show "replace [''brand01'', ''interactive01'']
     (replacer (replaceMap formatTokenName_spec [''brand01'', ''interactive01''])) ''brand01'' =
     ''`$brand-01`''"
    by code_simp
qed

lemma replaceMap_fold:
  "fold (\<lambda>n m. if n = ''__proto__'' then m else m(n \<mapsto> f n)) names m0 k =
     (if k \<in> set names \<and> k \<noteq> ''__proto__'' then Some (f k) else m0 k)"
  by (induction names arbitrary: m0) auto

lemma replaceMap_lookup:
  "replaceMap f names k = (if k \<in> set names \<and> k \<noteq> ''__proto__'' then Some (f k) else None)"
  by (simp add: replaceMap_def replaceMap_fold)

lemma replacer_name:
  "k \<in> set names \<Longrightarrow> k \<noteq> ''__proto__'' \<Longrightarrow>
   replacer (replaceMap f names) k = ''`$'' @ f k @ ''`''"
  by (simp add: replacer_def replaceMap_lookup)

lemma find_first:
  "n \<in> set xs \<Longrightarrow> P n \<Longrightarrow> list_all (\<lambda>m. \<not> P m) (takeWhile (\<lambda>x. x \<noteq> n) xs) \<Longrightarrow>
   find P xs = Some n"
  by (induction xs) (auto split: if_splits)

lemma replace_match:
  assumes "find (\<lambda>a. prefix a (n @ rest)) alts = Some n" and "n \<noteq> []"
  shows "replace alts f (n @ rest) = f n @ replace alts f rest"
  using assms by (subst replace.simps) simp

lemma replace_no_match:
  assumes "find (\<lambda>a. prefix a (c # cs)) alts = None"
  shows "replace alts f (c # cs) = c # replace alts f cs"
  using assms by (subst replace.simps) simp

lemma replace_crosses:
  "no_match_within alts pre s \<Longrightarrow> replace alts f (pre @ s) = pre @ replace alts f s"
proof (induction pre)
  case Nil
  then show ?case by simp
next
  case (Cons c pre)
  from Cons.prems have here: "find (\<lambda>a. prefix a (c # pre @ s)) alts = None"
    by (simp add: no_match_within_def upt_conv_Cons del: upt_Suc)
  from Cons.prems have "no_match_within alts pre s"
    unfolding no_match_within_def list_all_iff
  proof (intro ballI)
    fix i assume "i \<in> set [0..<length pre]"
    then have "Suc i \<in> set [0..<length (c # pre)]" by auto
    with Cons.prems have "find (\<lambda>a. prefix a (drop (Suc i) ((c # pre) @ s))) alts = None"
      unfolding no_match_within_def list_all_iff by blast
    then show "find (\<lambda>a. prefix a (drop i (pre @ s))) alts = None" by simp
  qed
  with Cons.IH have "replace alts f (pre @ s) = pre @ replace alts f s" .
  with here show ?case
    by (simp add: replace_no_match)
qed

lemma namesRegEx_literal:
  "list_all literal_name names \<Longrightarrow> names \<noteq> [] \<Longrightarrow>
   namesRegEx engine names = Inr (\<lambda>rmap. replace names (replacer rmap))"
  by (simp add: namesRegEx_def)

text \<open>
  C4, as amended. Let no name contain a syntax character of the pattern language, and let
  \<open>n\<close> be one of the names, not empty and not \<open>__proto__\<close>. In a line
  \<open>pre @ n @ rest\<close> where the search crosses \<open>pre\<close> without a match, the occurrence of
  \<open>n\<close> is replaced as a whole by its marked formatted name, and the search goes on in
  \<open>rest\<close>, provided that no name declared before \<open>n\<close> is a prefix of the text at the
  occurrence. So of two such names one of which is a prefix of the other, the longer is
  replaced whole where it is declared first.
\<close>

theorem name_replaced_whole:
  assumes "list_all literal_name names"
    and "n \<in> set names" and "n \<noteq> []" and "n \<noteq> ''__proto__''"
    and "no_match_within names pre (n @ rest)"
    and "list_all (\<lambda>m. \<not> prefix m (n @ rest)) (takeWhile (\<lambda>x. x \<noteq> n) names)"
  shows "\<exists>rewrite. namesRegEx engine names = Inr rewrite \<and>
     rewrite (replaceMap formatTokenName names) (pre @ n @ rest) =
       pre @ ''`$'' @ formatTokenName n @ ''`'' @
       rewrite (replaceMap formatTokenName names) rest"
proof -
  from assms(2) have "names \<noteq> []"
    by auto
  with assms(1)
  have pattern: "namesRegEx engine names = Inr (\<lambda>rmap. replace names (replacer rmap))"
    by (rule namesRegEx_literal)
  have "find (\<lambda>a. prefix a (n @ rest)) names = Some n"
    using assms(2,6) by (intro find_first) simp_all
  with assms(3)
  have "replace names (replacer (replaceMap formatTokenName names)) (n @ rest) =
      replacer (replaceMap formatTokenName names) n @
      replace names (replacer (replaceMap formatTokenName names)) rest"
    by (simp add: replace_match)
  with assms(2,4,5)
  have "replace names (replacer (replaceMap formatTokenName names)) (pre @ n @ rest) =
      pre @ ''`$'' @ formatTokenName n @ ''`'' @
      replace names (replacer (replaceMap formatTokenName names)) rest"
    by (simp add: replace_crosses replacer_name)
  with pattern show ?thesis
    by simp
qed

theorem name_replaced_whole_witness:
  "\<exists>rewrite. namesRegEx refusing_engine [''field01'', ''field''] = Inr rewrite \<and>
     rewrite (replaceMap formatTokenName_spec [''field01'', ''field''])
       (''see '' @ ''field01'' @ '' and field'') =
     ''see '' @ ''`$'' @ ''field-01'' @ ''`'' @
     rewrite (replaceMap formatTokenName_spec [''field01'', ''field'']) '' and field''"
proof -
  have 1: "list_all literal_name [''field01'', ''field'']"
    by (simp add: literal_name_def syntax_characters_def)
  have 2: "no_match_within [''field01'', ''field''] ''see '' (''field01'' @ '' and field'')"
    by code_simp
  have 3: "list_all (\<lambda>m. \<not> prefix m (''field01'' @ '' and field''))
      (takeWhile (\<lambda>x. x \<noteq> ''field01'') [''field01'', ''field''])"
    by simp
  show ?thesis
    using name_replaced_whole [OF 1 _ _ _ 2 3, of refusing_engine formatTokenName_spec]
    by simp
qed

text \<open>
  Against C4 as stated: \<open>field\<close> is declared before \<open>field01\<close>, and the role line
  \<open>field01\<close> has only its first five characters replaced.
\<close>

theorem partial_replacement_counterexample:
  "transformMetadata refusing_engine formatTokenName_spec prefix_example = Returns
     [\<lparr>name = ''field'', role = None, alias' = None, deprecated = False\<rparr>,
      \<lparr>name = ''field01'', role = Some [''`$field`01''], alias' = None, deprecated = False\<rparr>]"
  by code_simp

lemma build_transform_throws:
  "loadMetadata e = Inr md \<Longrightarrow> transformMetadata (patterns e) f md = Throws err \<Longrightarrow>
   build e f themes tc p = (p\<lparr>reported := reported p @ [info_message]\<rparr>, Throws err)"
  by (simp add: build_def Let_def)

lemma main_transform_throws:
  "loadMetadata e = Inr md \<Longrightarrow> transformMetadata (patterns e) f md = Throws err \<Longrightarrow>
   main e f themes tc =
     (start\<lparr>reported := [info_message], printed_errors := [err]\<rparr>, Returns ())"
  by (simp add: main_def build_transform_throws start_def)

lemma transformMetadata_no_array:
  "(\<forall>items. md \<noteq> Metadata (Tokens_array items)) \<Longrightarrow> transformMetadata engine f md = Throws TypeError"
  by (auto simp: transformMetadata_def split: metadata.splits tokens_field.splits)

lemma transformMetadata_null_item:
  "None \<in> set items \<Longrightarrow> transformMetadata engine f (Metadata (Tokens_array items)) = Throws TypeError"
  by (simp add: transformMetadata_def those_eq_None)

lemma transformMetadata_literal:
  "list_all literal_name (map name toks) \<Longrightarrow>
   \<exists>toks'. transformMetadata engine f (as_metadata toks) = Returns toks' \<and> length toks' = length toks"
  by (simp add: transformMetadata_entries namesRegEx_def)

text \<open>
  C10, as amended. When the metadata is not an object whose \<open>tokens\<close> is an array,
  \<open>transformMetadata\<close> throws \<open>TypeError\<close>, and a run that loads such metadata ends with
  the error printed, nothing written and no completion reported. It also throws
  \<open>TypeError\<close> when an item of the array is \<open>null\<close>. When every item is an entry and no
  name has a syntax character of the pattern language, it returns as many entries as it
  was given.
\<close>

theorem transformMetadata_partial:
  "((\<forall>items. md \<noteq> Metadata (Tokens_array items)) \<longrightarrow>
      transformMetadata engine formatTokenName md = Throws TypeError \<and>
      (loadMetadata e = Inr md \<longrightarrow>
         main e formatTokenName themes tokenColors =
           (start\<lparr>reported := [info_message], printed_errors := [TypeError]\<rparr>, Returns ()))) \<and>
   (\<forall>items. md = Metadata (Tokens_array items) \<and> None \<in> set items \<longrightarrow>
      transformMetadata engine formatTokenName md = Throws TypeError) \<and>
   (\<forall>toks. md = as_metadata toks \<and> list_all literal_name (map name toks) \<longrightarrow>
      (\<exists>toks'. transformMetadata engine formatTokenName md = Returns toks' \<and>
         length toks' = length toks))"
proof (intro conjI impI allI)
  assume "\<forall>items. md \<noteq> Metadata (Tokens_array items)"
  then show "transformMetadata engine formatTokenName md = Throws TypeError"
    by (rule transformMetadata_no_array)
next
  assume "\<forall>items. md \<noteq> Metadata (Tokens_array items)" and "loadMetadata e = Inr md"
  then show "main e formatTokenName themes tokenColors =
      (start\<lparr>reported := [info_message], printed_errors := [TypeError]\<rparr>, Returns ())"
    by (simp add: main_transform_throws transformMetadata_no_array)
next
  fix items assume "md = Metadata (Tokens_array items) \<and> None \<in> set items"
  then show "transformMetadata engine formatTokenName md = Throws TypeError"
    by (simp add: transformMetadata_null_item)
next
  fix toks assume "md = as_metadata toks \<and> list_all literal_name (map name toks)"
  then show "\<exists>toks'. transformMetadata engine formatTokenName md = Returns toks' \<and>
      length toks' = length toks"
    by (simp add: transformMetadata_literal)
qed

theorem transformMetadata_partial_witness:
  "transformMetadata refusing_engine formatTokenName_spec (Metadata Tokens_undefined) = Throws TypeError \<and>
   main (quiet_env (Inr (Metadata Tokens_undefined))) formatTokenName_spec white_only
       [''interactive01''] =
     (start\<lparr>reported := [info_message], printed_errors := [TypeError]\<rparr>, Returns ()) \<and>
   transformMetadata refusing_engine formatTokenName_spec null_item_example = Throws TypeError \<and>
   (\<exists>toks'. transformMetadata refusing_engine formatTokenName_spec alias_example = Returns toks' \<and>
      length toks' = 2)"
proof -
  have a: "\<forall>items. Metadata Tokens_undefined \<noteq> Metadata (Tokens_array items)"
    by simp
  have b: "loadMetadata (quiet_env (Inr (Metadata Tokens_undefined))) = Inr (Metadata Tokens_undefined)"
    by (simp add: quiet_env_def)
  have c: "null_item_example = Metadata (Tokens_array
      [Some \<lparr>name = ''interactive01'', role = None, alias' = None, deprecated = False\<rparr>, None]) \<and>
      None \<in> set [Some \<lparr>name = ''interactive01'', role = None, alias' = None, deprecated = False\<rparr>, None]"
    by (simp add: null_item_example_def)
  have d: "alias_example = as_metadata
      [\<lparr>name = ''brand01'', role = None, alias' = None, deprecated = False\<rparr>,
       \<lparr>name = ''interactive01'', role = None, alias' = Some ''brand01'', deprecated = False\<rparr>] \<and>
     list_all literal_name (map name
      [\<lparr>name = ''brand01'', role = None, alias' = None, deprecated = False\<rparr>,
       \<lparr>name = ''interactive01'', role = None, alias' = Some ''brand01'', deprecated = False\<rparr>])"
    by (simp add: alias_example_def literal_name_def syntax_characters_def)
  from a b transformMetadata_partial
    [where md = "Metadata Tokens_undefined" and engine = refusing_engine
      and formatTokenName = formatTokenName_spec
      and e = "quiet_env (Inr (Metadata Tokens_undefined))" and themes = white_only
      and tokenColors = "[''interactive01'']"]
  have 1: "transformMetadata refusing_engine formatTokenName_spec (Metadata Tokens_undefined) = Throws TypeError \<and>
     main (quiet_env (Inr (Metadata Tokens_undefined))) formatTokenName_spec white_only
       [''interactive01''] =
     (start\<lparr>reported := [info_message], printed_errors := [TypeError]\<rparr>, Returns ())"
    by blast
  from c transformMetadata_partial
    [where md = null_item_example and engine = refusing_engine
      and formatTokenName = formatTokenName_spec]
  have 2: "transformMetadata refusing_engine formatTokenName_spec null_item_example = Throws TypeError"
    by blast
  from d transformMetadata_partial
    [where md = alias_example and engine = refusing_engine
      and formatTokenName = formatTokenName_spec]
  have 3: "\<exists>toks'. transformMetadata refusing_engine formatTokenName_spec alias_example = Returns toks' \<and>
      length toks' = 2"
    by fastforce
  from 1 2 3 show ?thesis
    by blast
qed

text \<open>
  Against C10 as stated: the metadata has a \<open>tokens\<close> sequence, whose second item is
  \<open>null\<close>, and \<open>transformMetadata\<close> throws.
\<close>

theorem null_item_counterexample:
  "transformMetadata refusing_engine formatTokenName_spec null_item_example = Throws TypeError"
  by (simp add: null_item_example_def transformMetadata_def)

subsection \<open>Transforming twice\<close>

lemma find_prefix_Some:
  "find (\<lambda>a. prefix a t) alts = Some m \<Longrightarrow> m \<in> set alts \<and> prefix m t"
  by (auto simp: find_Some_iff)

lemma replace_Nil:
  assumes "\<forall>a\<in>set alts. a \<noteq> []"
  shows "replace alts g [] = []"
proof -
  have "find (\<lambda>a. prefix a []) alts = None"
    using assms by (auto simp: find_None_iff)
  then show ?thesis
    by (subst replace.simps) simp
qed

lemma replace_Some:
  "find (\<lambda>a. prefix a s) alts = Some m \<Longrightarrow> m \<noteq> [] \<Longrightarrow>
   replace alts g s = g m @ replace alts g (drop (length m) s)"
  by (subst replace.simps) simp

lemma prefix_stops_at:
  assumes "prefix n (u @ t)" and "u \<noteq> []" and "last u \<notin> set n"
  shows "prefix n u"
proof -
  from assms(1) consider "prefix n u" | us where "n = u @ us"
    by (auto simp: prefix_append)
  then show ?thesis
  proof cases
    case 1
    then show ?thesis .
  next
    case 2
    with assms(2) have "last u \<in> set n" by simp
    with assms(3) show ?thesis by simp
  qed
qed

text \<open>
  Where the search finds no match at the start of a line, a string without the marker
  character that begins the rewritten line begins the line itself.
\<close>

lemma prefix_of_replace:
  assumes alts: "\<forall>a\<in>set alts. a \<noteq> []"
    and g: "\<forall>m\<in>set alts. \<exists>w. g m = q # w"
  shows "q \<notin> set n \<Longrightarrow> find (\<lambda>a. prefix a s) alts = None \<Longrightarrow>
    prefix n (replace alts g s) \<Longrightarrow> prefix n s"
proof (induction s arbitrary: n)
  case Nil
  with alts show ?case
    by (simp add: replace_Nil)
next
  case (Cons c cs)
  from Cons.prems(2) have step: "replace alts g (c # cs) = c # replace alts g cs"
    by (rule replace_no_match)
  show ?case
  proof (cases n)
    case Nil
    then show ?thesis by simp
  next
    case n: (Cons x n')
    with Cons.prems(3) step have x: "x = c" and n': "prefix n' (replace alts g cs)"
      by simp_all
    from n Cons.prems(1) have q: "q \<notin> set n'"
      by simp
    show ?thesis
    proof (cases "find (\<lambda>a. prefix a cs) alts")
      case None
      with Cons.IH [OF q] n' have "prefix n' cs" by simp
      with n x show ?thesis by simp
    next
      case (Some m)
      then have m: "m \<in> set alts" "prefix m cs"
        by (auto dest: find_prefix_Some)
      with alts have "m \<noteq> []" by blast
      with Some have "replace alts g cs = g m @ replace alts g (drop (length m) cs)"
        by (rule replace_Some)
      moreover from g m(1) obtain w where "g m = q # w" by blast
      ultimately have "replace alts g cs = q # w @ replace alts g (drop (length m) cs)"
        by simp
      with n' q have "n' = []"
        by (cases n') auto
      with n x show ?thesis by simp
    qed
  qed
qed

text \<open>In a rewritten line no alternative matches at any index.\<close>

lemma replace_clean:
  assumes alts: "\<forall>a\<in>set alts. a \<noteq> [] \<and> q \<notin> set a"
    and g: "\<forall>m\<in>set alts. (\<exists>w. g m = q # w) \<and> last (g m) = q \<and>
              (\<forall>a\<in>set alts. \<not> sublist a (g m))"
  shows "\<forall>a\<in>set alts. \<not> prefix a (drop i (replace alts g s))"
proof (induction s arbitrary: i rule: length_induct)
  case (1 s)
  have nonempty: "\<forall>a\<in>set alts. a \<noteq> []" and starts: "\<forall>m\<in>set alts. \<exists>w. g m = q # w"
    using alts g by blast+
  show ?case
  proof (cases "find (\<lambda>a. prefix a s) alts")
    case None
    show ?thesis
    proof (cases s)
      case Nil
      with nonempty show ?thesis
        by (auto simp: replace_Nil)
    next
      case (Cons c cs)
      with None have step: "replace alts g s = c # replace alts g cs"
        by (simp add: replace_no_match)
      show ?thesis
      proof (cases i)
        case 0
        show ?thesis
        proof
          fix a assume a: "a \<in> set alts"
          show "\<not> prefix a (drop i (replace alts g s))"
          proof
            assume "prefix a (drop i (replace alts g s))"
            with 0 have "prefix a (replace alts g s)" by simp
            moreover from a alts have "q \<notin> set a" by blast
            ultimately have "prefix a s"
              using None prefix_of_replace [OF nonempty starts] by blast
            with a None show False
              by (auto simp: find_None_iff)
          qed
        qed
      next
        case (Suc j)
        from Cons have "length cs < length s" by simp
        with 1 have "\<forall>a\<in>set alts. \<not> prefix a (drop j (replace alts g cs))"
          by blast
        with Suc step show ?thesis by simp
      qed
    qed
  next
    case (Some m)
    then have m: "m \<in> set alts" "prefix m s"
      by (auto dest: find_prefix_Some)
    with nonempty have m_ne: "m \<noteq> []" by blast
    with Some have step: "replace alts g s = g m @ replace alts g (drop (length m) s)"
      by (rule replace_Some)
    from m m_ne have shorter: "length (drop (length m) s) < length s"
      by (cases s) (auto simp: prefix_def)
    show ?thesis
    proof (cases "i < length (g m)")
      case True
      show ?thesis
      proof
        fix a assume a: "a \<in> set alts"
        show "\<not> prefix a (drop i (replace alts g s))"
        proof
          assume "prefix a (drop i (replace alts g s))"
          with step True
          have "prefix a (drop i (g m) @ replace alts g (drop (length m) s))"
            by simp
          moreover from True have "drop i (g m) \<noteq> []" by simp
          moreover from True g m(1) have "last (drop i (g m)) = q" by simp
          moreover from a alts have "q \<notin> set a" by blast
          ultimately have "prefix a (drop i (g m))"
            using prefix_stops_at by metis
          then obtain z where "drop i (g m) = a @ z"
            by (auto simp: prefix_def)
          then have "g m = take i (g m) @ a @ z"
            by (metis append_take_drop_id)
          then have "sublist a (g m)"
            unfolding sublist_def by blast
          with g m(1) a show False by blast
        qed
      qed
    next
      case False
      with step have "drop i (replace alts g s) =
          drop (i - length (g m)) (replace alts g (drop (length m) s))"
        by simp
      with 1 shorter show ?thesis by simp
    qed
  qed
qed

lemma replace_unmatched:
  "(\<And>i. \<forall>a\<in>set alts. \<not> prefix a (drop i s)) \<Longrightarrow> replace alts g s = s"
proof (induction s)
  case Nil
  from Nil [of 0] have "find (\<lambda>a. prefix a []) alts = None"
    by (auto simp: find_None_iff)
  then show ?case
    by (subst replace.simps) simp
next
  case (Cons c cs)
  from Cons.prems [of 0] have "find (\<lambda>a. prefix a (c # cs)) alts = None"
    by (auto simp: find_None_iff)
  then have "replace alts g (c # cs) = c # replace alts g cs"
    by (rule replace_no_match)
  moreover have "replace alts g cs = cs"
  proof (rule Cons.IH)
    fix i
    from Cons.prems [of "Suc i"] show "\<forall>a\<in>set alts. \<not> prefix a (drop i cs)"
      by simp
  qed
  ultimately show ?case by simp
qed

lemma replace_twice:
  assumes "\<forall>a\<in>set alts. a \<noteq> [] \<and> q \<notin> set a"
    and "\<forall>m\<in>set alts. (\<exists>w. g m = q # w) \<and> last (g m) = q \<and>
              (\<forall>a\<in>set alts. \<not> sublist a (g m))"
  shows "replace alts g (replace alts g s) = replace alts g s"
  by (rule replace_unmatched) (rule replace_clean [OF assms])

lemma replacer_shape:
  "(\<exists>w. replacer rmap m = CHR 0x60 # w) \<and> last (replacer rmap m) = CHR 0x60"
  by (simp add: replacer_def)

lemma name_transformToken [simp]: "name (transformToken f rewrite token) = name token"
  by (simp add: transformToken_def)

text \<open>
  C3, as amended. Take a sequence of entries in which no token name contains a syntax
  character of the pattern language or a backquote, and no token name occurs inside the
  marked replacement of a token name. Then the transformer returns on it, and again on
  its result, and the second result has the role lines, names and deprecation flags of
  the first: no role line is rewritten a second time. The aliases of the second result
  are the aliases of the first, each non-empty one formatted once more. Where the
  formatter leaves the formatted form of every non-empty alias as it is, the second result
  is the first.
\<close>

theorem transformMetadata_idempotent:
  assumes literal: "list_all literal_name (map name toks)"
    and names: "list_all (\<lambda>n. CHR 0x60 \<notin> set n \<and>
        list_all (\<lambda>m. \<not> sublist n
          (replacer (replaceMap formatTokenName (map name toks)) m)) (map name toks))
        (map name toks)"
  shows "\<exists>once twice.
     transformMetadata engine formatTokenName (as_metadata toks) = Returns once \<and>
     transformMetadata engine formatTokenName (as_metadata once) = Returns twice \<and>
     map name twice = map name once \<and>
     map role twice = map role once \<and>
     map deprecated twice = map deprecated once \<and>
     map alias' twice =
       map (\<lambda>token. map_option (\<lambda>a. if a = [] then a else formatTokenName a)
         (alias' token)) once \<and>
     (list_all (\<lambda>token. case alias' token of
          None \<Rightarrow> True
        | Some a \<Rightarrow> a = [] \<or> formatTokenName (formatTokenName a) = formatTokenName a) toks \<longrightarrow>
      twice = once)"
proof (cases "toks = []")
  case True
  then have "transformMetadata engine formatTokenName (as_metadata toks) = Returns []"
    by (simp add: transformMetadata_entries namesRegEx_def)
  with True show ?thesis
    by simp
next
  case False
  define ns where "ns = map name toks"
  define g where "g = replacer (replaceMap formatTokenName ns)"
  define T where "T = transformToken formatTokenName (replace ns g)"
  from False have "ns \<noteq> []"
    by (simp add: ns_def)
  with literal
  have pattern: "namesRegEx engine ns = Inr (\<lambda>rmap. replace ns (replacer rmap))"
    unfolding ns_def by (rule namesRegEx_literal)
  then have once: "transformMetadata engine formatTokenName (as_metadata toks) =
      Returns (map T toks)"
    by (simp add: transformMetadata_entries ns_def T_def g_def)
  have same_names: "map name (map T toks) = ns"
    by (simp add: ns_def comp_def T_def)
  with pattern
  have twice: "transformMetadata engine formatTokenName (as_metadata (map T toks)) =
      Returns (map T (map T toks))"
    using transformMetadata_entries [of engine formatTokenName "map T toks"]
    by (simp add: T_def g_def)
  have no_backquote: "\<forall>a\<in>set ns. CHR 0x60 \<notin> set a"
    and outside: "\<forall>m\<in>set ns. \<forall>a\<in>set ns. \<not> sublist a (g m)"
    using names by (auto simp: list_all_iff ns_def g_def)
  from outside have "\<forall>a\<in>set ns. a \<noteq> []"
    by auto
  with no_backquote have "\<forall>a\<in>set ns. a \<noteq> [] \<and> CHR 0x60 \<notin> set a"
    by blast
  moreover have "\<forall>m\<in>set ns. (\<exists>w. g m = CHR 0x60 # w) \<and> last (g m) = CHR 0x60 \<and>
      (\<forall>a\<in>set ns. \<not> sublist a (g m))"
    using outside replacer_shape by (auto simp: g_def)
  ultimately have stable: "replace ns g (replace ns g s) = replace ns g s" for s
    by (rule replace_twice)
  have role_stable: "role (T (T token)) = role (T token)" for token
    by (cases "role token") (simp_all add: T_def transformToken_def stable)
  have rest_stable: "name (T (T token)) = name (T token)"
    "deprecated (T (T token)) = deprecated (T token)"
    "alias' (T (T token)) =
      map_option (\<lambda>a. if a = [] then a else formatTokenName a) (alias' (T token))"
    for token
    by (simp_all add: T_def transformToken_def)
  have whole: "map T (map T toks) = map T toks"
    if "list_all (\<lambda>token. case alias' token of
          None \<Rightarrow> True
        | Some a \<Rightarrow> a = [] \<or> formatTokenName (formatTokenName a) = formatTokenName a) toks"
  proof -
    have "T (T token) = T token" if "token \<in> set toks" for token
    proof -
      from that \<open>list_all _ toks\<close>
      have "alias' (T (T token)) = alias' (T token)"
        by (cases "alias' token") (auto simp: list_all_iff T_def transformToken_def)
      with role_stable [of token] rest_stable(1,2) [of token] show ?thesis
        by simp
    qed
    then show ?thesis
      by simp
  qed
  from once twice role_stable rest_stable whole show ?thesis
    by (intro exI [of _ "map T toks"] exI [of _ "map T (map T toks)"])
      (simp add: comp_def)
qed

text \<open>
  Against C3 as stated, three times. The token \<open>focus\<close> has no number, so its formatted
  name is the name itself: the first pass wraps the name in the role line, and the second
  pass finds the name inside the wrapped reference and wraps it again. The alias
  \<open>brand01\<close> is formatted by each pass, to \<open>brand-01\<close> and then to \<open>brand--01\<close>. And with
  a token name that ends in a backquote, the second pass matches across the start of a
  wrapped reference.
\<close>

theorem double_wrapping_counterexample:
  "transformMetadata refusing_engine formatTokenName_spec focus_example = Returns
     [\<lparr>name = ''focus'', role = Some [''Border of `$focus`''], alias' = None,
       deprecated = False\<rparr>] \<and>
   transformMetadata refusing_engine formatTokenName_spec (as_metadata
     [\<lparr>name = ''focus'', role = Some [''Border of `$focus`''], alias' = None,
       deprecated = False\<rparr>]) = Returns
     [\<lparr>name = ''focus'', role = Some [''Border of `$`$focus``''], alias' = None,
       deprecated = False\<rparr>] \<and>
   transformMetadata refusing_engine formatTokenName_spec (as_metadata brand_example) = Returns
     [\<lparr>name = ''brand01'', role = Some [''Primary brand color''], alias' = None,
       deprecated = False\<rparr>,
      \<lparr>name = ''interactive01'', role = Some [''Interactive color; replaces `$brand-01`''],
       alias' = Some ''brand-01'', deprecated = True\<rparr>] \<and>
   transformMetadata refusing_engine formatTokenName_spec (as_metadata
     [\<lparr>name = ''brand01'', role = Some [''Primary brand color''], alias' = None,
       deprecated = False\<rparr>,
      \<lparr>name = ''interactive01'', role = Some [''Interactive color; replaces `$brand-01`''],
       alias' = Some ''brand-01'', deprecated = True\<rparr>]) = Returns
     [\<lparr>name = ''brand01'', role = Some [''Primary brand color''], alias' = None,
       deprecated = False\<rparr>,
      \<lparr>name = ''interactive01'', role = Some [''Interactive color; replaces `$brand-01`''],
       alias' = Some ''brand--01'', deprecated = True\<rparr>] \<and>
   transformMetadata refusing_engine formatTokenName_spec backquote_example = Returns
     [\<lparr>name = ''a`'', role = None, alias' = None, deprecated = False\<rparr>,
      \<lparr>name = ''b'', role = Some [''a`$b`''], alias' = None, deprecated = False\<rparr>] \<and>
   transformMetadata refusing_engine formatTokenName_spec (as_metadata
     [\<lparr>name = ''a`'', role = None, alias' = None, deprecated = False\<rparr>,
      \<lparr>name = ''b'', role = Some [''a`$b`''], alias' = None, deprecated = False\<rparr>]) = Returns
     [\<lparr>name = ''a`'', role = None, alias' = None, deprecated = False\<rparr>,
      \<lparr>name = ''b'', role = Some [''`$a``$`$b``''], alias' = None, deprecated = False\<rparr>]"
  by (intro conjI; code_simp)

theorem transformMetadata_idempotent_witness:
  "(\<exists>once twice.
      transformMetadata refusing_engine formatTokenName_spec (as_metadata interactive_example) =
        Returns once \<and>
      transformMetadata refusing_engine formatTokenName_spec (as_metadata once) = Returns twice \<and>
      map role twice = map role once \<and> twice = once) \<and>
   (\<exists>once twice.
      transformMetadata refusing_engine formatTokenName_spec (as_metadata brand_example) =
        Returns once \<and>
      transformMetadata refusing_engine formatTokenName_spec (as_metadata once) = Returns twice \<and>
      map role twice = map role once \<and>
      map alias' twice = map (\<lambda>token. map_option
        (\<lambda>a. if a = [] then a else formatTokenName_spec a) (alias' token)) once)"
proof
  have 1: "list_all literal_name (map name interactive_example)"
    by code_simp
  have 2: "list_all (\<lambda>n. CHR 0x60 \<notin> set n \<and>
        list_all (\<lambda>m. \<not> sublist n
          (replacer (replaceMap formatTokenName_spec (map name interactive_example)) m))
          (map name interactive_example))
        (map name interactive_example)"
    by code_simp
  have 3: "list_all (\<lambda>token. case alias' token of
        None \<Rightarrow> True
      | Some a \<Rightarrow> a = [] \<or> formatTokenName_spec (formatTokenName_spec a) = formatTokenName_spec a)
      interactive_example"
    by code_simp
  from transformMetadata_idempotent [OF 1 2, of refusing_engine] 3
  show "\<exists>once twice.
      transformMetadata refusing_engine formatTokenName_spec (as_metadata interactive_example) =
        Returns once \<and>
      transformMetadata refusing_engine formatTokenName_spec (as_metadata once) = Returns twice \<and>
      map role twice = map role once \<and> twice = once"
    by blast
next
  have 1: "list_all literal_name (map name brand_example)"
    by code_simp
  have 2: "list_all (\<lambda>n. CHR 0x60 \<notin> set n \<and>
        list_all (\<lambda>m. \<not> sublist n
          (replacer (replaceMap formatTokenName_spec (map name brand_example)) m))
          (map name brand_example))
        (map name brand_example)"
    by code_simp
  from transformMetadata_idempotent [OF 1 2, of refusing_engine]
  show "\<exists>once twice.
      transformMetadata refusing_engine formatTokenName_spec (as_metadata brand_example) =
        Returns once \<and>
      transformMetadata refusing_engine formatTokenName_spec (as_metadata once) = Returns twice \<and>
      map role twice = map role once \<and>
      map alias' twice = map (\<lambda>token. map_option
        (\<lambda>a. if a = [] then a else formatTokenName_spec a) (alias' token)) once"
    by blast
qed

subsection \<open>The run and its errors\<close>

text \<open>
  C9, as amended. Stage by stage, in the order of the code: a throw while loading the
  metadata, while transforming it (which includes the error of the pattern constructor),
  while creating the directory, or while serializing or writing one of the three files
  ends the run with that error, and only it, printed to the error stream; the one message
  reported is the first, completion is not; the files written are those of the writes
  before the failing stage, each once and in order. In each of these cases the handler
  returns: the chain settles normally and the exit status stays 0. Only
  when every stage succeeds is completion reported, with no error printed and the three
  files written, the token defaults first, then the mixins, then the theme maps.
\<close>

theorem failure_logged_run_ends:
  "(\<forall>err. loadMetadata e = Inl err \<longrightarrow>
      main e formatTokenName themes tokenColors =
        (\<lparr>reported = [''Building scss files for themes...''], printed_errors = [err],
          written = [], exitCode = 0\<rparr>, Returns ())) \<and>
   (\<forall>md. loadMetadata e = Inr md \<longrightarrow>
      (\<forall>err. transformMetadata (patterns e) formatTokenName md = Throws err \<longrightarrow>
         main e formatTokenName themes tokenColors =
           (\<lparr>reported = [''Building scss files for themes...''], printed_errors = [err],
             written = [], exitCode = 0\<rparr>, Returns ())) \<and>
      (\<forall>toks. transformMetadata (patterns e) formatTokenName md = Returns toks \<longrightarrow>
         (\<forall>err. ensureDir e = Some err \<longrightarrow>
            main e formatTokenName themes tokenColors =
              (\<lparr>reported = [''Building scss files for themes...''], printed_errors = [err],
                written = [], exitCode = 0\<rparr>, Returns ())) \<and>
         (ensureDir e = None \<longrightarrow>
            (\<forall>err. generate e (tokensFile formatTokenName tokenColors toks) = Inl err \<longrightarrow>
               main e formatTokenName themes tokenColors =
                 (\<lparr>reported = [''Building scss files for themes...''],
                   printed_errors = [err], written = [], exitCode = 0\<rparr>, Returns ())) \<and>
            (\<forall>c1. generate e (tokensFile formatTokenName tokenColors toks) = Inr c1 \<longrightarrow>
               (\<forall>err. writeFile e TOKENS_ENTRYPOINT c1 = Some err \<longrightarrow>
                  main e formatTokenName themes tokenColors =
                    (\<lparr>reported = [''Building scss files for themes...''],
                      printed_errors = [err], written = [], exitCode = 0\<rparr>, Returns ())) \<and>
               (writeFile e TOKENS_ENTRYPOINT c1 = None \<longrightarrow>
                  (\<forall>err. generate e (mixinsFile formatTokenName tokenColors) = Inl err \<longrightarrow>
                     main e formatTokenName themes tokenColors =
                       (\<lparr>reported = [''Building scss files for themes...''],
                         printed_errors = [err], written = [(TOKENS_ENTRYPOINT, c1)],
                         exitCode = 0\<rparr>, Returns ())) \<and>
                  (\<forall>c2. generate e (mixinsFile formatTokenName tokenColors) = Inr c2 \<longrightarrow>
                     (\<forall>err. writeFile e MIXINS_ENTRYPOINT c2 = Some err \<longrightarrow>
                        main e formatTokenName themes tokenColors =
                          (\<lparr>reported = [''Building scss files for themes...''],
                            printed_errors = [err], written = [(TOKENS_ENTRYPOINT, c1)],
                            exitCode = 0\<rparr>, Returns ())) \<and>
                     (writeFile e MIXINS_ENTRYPOINT c2 = None \<longrightarrow>
                        (\<forall>err. generate e (themeMapsFile formatTokenName themes) = Inl err \<longrightarrow>
                           main e formatTokenName themes tokenColors =
                             (\<lparr>reported = [''Building scss files for themes...''],
                               printed_errors = [err],
                               written = [(TOKENS_ENTRYPOINT, c1), (MIXINS_ENTRYPOINT, c2)],
                               exitCode = 0\<rparr>, Returns ())) \<and>
                        (\<forall>c3. generate e (themeMapsFile formatTokenName themes) = Inr c3 \<longrightarrow>
                           (\<forall>err. writeFile e MAPS_ENTRYPOINT c3 = Some err \<longrightarrow>
                              main e formatTokenName themes tokenColors =
                                (\<lparr>reported = [''Building scss files for themes...''],
                                  printed_errors = [err],
                                  written = [(TOKENS_ENTRYPOINT, c1), (MIXINS_ENTRYPOINT, c2)],
                                  exitCode = 0\<rparr>, Returns ())) \<and>
                           (writeFile e MAPS_ENTRYPOINT c3 = None \<longrightarrow>
                              main e formatTokenName themes tokenColors =
                                (\<lparr>reported = [''Building scss files for themes...'',
                                    ''Done! '' @ [CHR 0xF0, CHR 0x9F, CHR 0x8E, CHR 0x89]],
                                  printed_errors = [],
                                  written = [(TOKENS_ENTRYPOINT, c1), (MIXINS_ENTRYPOINT, c2),
                                    (MAPS_ENTRYPOINT, c3)],
                                  exitCode = 0\<rparr>, Returns ()))))))))))"
  by (simp add: main_def build_def Let_def start_def document_def info_message_def
      success_message_def)

lemma SyntaxError_at_group:
  "transformMetadata refusing_engine formatTokenName_spec group_example = Throws SyntaxError"
  by code_simp

theorem failure_logged_run_ends_witness:
  "main mixins_unwritable formatTokenName_spec white_only [''interactive01''] =
     (\<lparr>reported = [''Building scss files for themes...''],
       printed_errors = [Failure ''EACCES''],
       written = [(TOKENS_ENTRYPOINT, [])], exitCode = 0\<rparr>, Returns ()) \<and>
   main (quiet_env (Inr group_example)) formatTokenName_spec white_only [''interactive01''] =
     (\<lparr>reported = [''Building scss files for themes...''], printed_errors = [SyntaxError],
       written = [], exitCode = 0\<rparr>, Returns ()) \<and>
   main (quiet_env (Inr alias_example)) formatTokenName_spec white_only [''interactive01''] =
     (\<lparr>reported = [''Building scss files for themes...'',
         ''Done! '' @ [CHR 0xF0, CHR 0x9F, CHR 0x8E, CHR 0x89]],
       printed_errors = [],
       written = [(TOKENS_ENTRYPOINT, []), (MIXINS_ENTRYPOINT, []), (MAPS_ENTRYPOINT, [])],
       exitCode = 0\<rparr>, Returns ())"
proof (intro conjI)
  have returns: "transformMetadata refusing_engine formatTokenName_spec alias_example = Returns
     [\<lparr>name = ''brand01'', role = None, alias' = None, deprecated = False\<rparr>,
      \<lparr>name = ''interactive01'', role = None, alias' = Some ''brand-01'',
       deprecated = False\<rparr>]"
    by (rule alias_example_result)
  from failure_logged_run_ends
    [where e = mixins_unwritable and formatTokenName = formatTokenName_spec
      and themes = white_only and tokenColors = "[''interactive01'']"] returns
  show "main mixins_unwritable formatTokenName_spec white_only [''interactive01''] =
     (\<lparr>reported = [''Building scss files for themes...''],
       printed_errors = [Failure ''EACCES''],
       written = [(TOKENS_ENTRYPOINT, [])], exitCode = 0\<rparr>, Returns ())"
    by (simp add: mixins_unwritable_def)
  from failure_logged_run_ends
    [where e = "quiet_env (Inr group_example)" and formatTokenName = formatTokenName_spec
      and themes = white_only and tokenColors = "[''interactive01'']"] SyntaxError_at_group
  show "main (quiet_env (Inr group_example)) formatTokenName_spec white_only
      [''interactive01''] =
     (\<lparr>reported = [''Building scss files for themes...''], printed_errors = [SyntaxError],
       written = [], exitCode = 0\<rparr>, Returns ())"
    by (simp add: quiet_env_def)
  from failure_logged_run_ends
    [where e = "quiet_env (Inr alias_example)" and formatTokenName = formatTokenName_spec
      and themes = white_only and tokenColors = "[''interactive01'']"] returns
  show "main (quiet_env (Inr alias_example)) formatTokenName_spec white_only
      [''interactive01''] =
     (\<lparr>reported = [''Building scss files for themes...'',
         ''Done! '' @ [CHR 0xF0, CHR 0x9F, CHR 0x8E, CHR 0x89]],
       printed_errors = [],
       written = [(TOKENS_ENTRYPOINT, []), (MIXINS_ENTRYPOINT, []), (MAPS_ENTRYPOINT, [])],
       exitCode = 0\<rparr>, Returns ())"
    by (simp add: quiet_env_def)
qed

text \<open>
  Against C9 as stated: the metadata file cannot be read. The error is printed, and the
  run ends as any other: the handler has returned and the exit status is 0.
\<close>

theorem failed_run_ends_normally_counterexample:
  "main (quiet_env (Inl (Failure ''ENOENT''))) formatTokenName_spec white_only [''interactive01''] =
     (\<lparr>reported = [''Building scss files for themes...''],
       printed_errors = [Failure ''ENOENT''], written = [], exitCode = 0\<rparr>, Returns ())"
  by (simp add: main_def build_def Let_def quiet_env_def start_def info_message_def)

subsection \<open>The reset guard of the mixin\<close>














end
